theory Spec2Isabelle
  imports Complex_Main "HOL-Library.Multiset" "HOL-Library.Sublist" "HOL-Library.Log_Nat"
begin

section \<open>Data model\<close>

text \<open>
  JavaScript strings are sequences of UTF-16 code units; a code unit is a natural number.
  \<open>str\<close> turns an ASCII literal into its code units.

  The type \<open>'n\<close> of numbers is a parameter of the data model: the mutators and selectors
  use its operations (\<open>+\<close>, \<open>-\<close>, \<open>Math.abs\<close>, comparisons) and nothing else about it.
  The numbers of JavaScript are the type \<open>double\<close> of the next section. A theorem stated
  for every number type holds for them; a theorem stated for \<open>rat\<close> is about exact
  arithmetic.
\<close>

type_synonym jsstring = "nat list"

definition str :: "string \<Rightarrow> jsstring" where
  "str s = map of_char s"

record 'n account =
  account_id :: jsstring
  account_name :: jsstring
  balance :: 'n

record 'n category =
  category_id :: jsstring
  category_name :: jsstring
  budgeted :: 'n

text \<open>The object the transaction forms pass to \<open>addTransaction\<close>.\<close>

record 'n txinput =
  accountId :: jsstring
  categoryId :: jsstring
  amount :: 'n
  memo :: jsstring

text \<open>A stored transaction: \<open>{ ...tx, id: genId(), date: new Date().toISOString() }\<close>.\<close>

record 'n transaction = "'n txinput" +
  transaction_id :: jsstring
  date :: jsstring

record 'n snapshot =
  accounts :: "'n account list"
  categories :: "'n category list"
  transactions :: "'n transaction list"

text \<open>The value \<open>loadData\<close> falls back to.\<close>

definition emptySnapshot :: "'n snapshot" where
  "emptySnapshot = \<lparr>accounts = [], categories = [], transactions = []\<rparr>"

section \<open>The numbers of JavaScript\<close>

text \<open>
  A number is an IEEE 754 double: \<open>NaN\<close>, an infinity, or a finite value, kept as the
  rational it is. The two zeros are one value here. \<open>fl\<close> rounds a rational to the nearest
  double, ties to the even significand: 53 bits of significand, binary exponents from
  -1022 (below which the spacing stays \<open>2 ^ -1074\<close>) to 1023, and an infinity from
  \<open>2 ^ 1024\<close> on. A decimal literal and every arithmetic operation give the rounded
  exact result.
\<close>

datatype double = NaN | NegInf | Fin rat | PosInf

definition pow2 :: "int \<Rightarrow> rat" where
  "pow2 e = (if 0 \<le> e then 2 ^ nat e else 1 / 2 ^ nat (- e))"

text \<open>The binary exponent of a positive rational: \<open>pow2 e \<le> a < pow2 (e + 1)\<close>.\<close>

definition floor_log2 :: "rat \<Rightarrow> int" where
  "floor_log2 a =
     (let (p, q) = quotient_of a; d = bitlen p - bitlen q
      in if pow2 d \<le> a then d else d - 1)"

definition round_half_even :: "rat \<Rightarrow> int" where
  "round_half_even q =
     (let f = \<lfloor>q\<rfloor>; r = q - of_int f
      in if r < 1 / 2 then f else if 1 / 2 < r then f + 1 else if even f then f else f + 1)"

definition fl :: "rat \<Rightarrow> double" where
  "fl x =
     (if x = 0 then Fin 0
      else
        let a = \<bar>x\<bar>;
            e = max (floor_log2 a) (- 1022);
            u = pow2 (e - 52);
            r = of_int (round_half_even (a / u)) * u
        in if pow2 1024 \<le> r then (if 0 < x then PosInf else NegInf)
           else Fin (if 0 < x then r else - r))"

definition is_finite :: "double \<Rightarrow> bool" where
  "is_finite x = (case x of Fin r \<Rightarrow> True | _ \<Rightarrow> False)"

instantiation double :: "{zero, plus, uminus, minus, times, inverse, abs, ord}"
begin

definition zero_double :: double where
  "zero_double = Fin 0"

fun plus_double :: "double \<Rightarrow> double \<Rightarrow> double" where
  "plus_double NaN y = NaN"
| "plus_double x NaN = NaN"
| "plus_double PosInf NegInf = NaN"
| "plus_double NegInf PosInf = NaN"
| "plus_double PosInf y = PosInf"
| "plus_double NegInf y = NegInf"
| "plus_double x PosInf = PosInf"
| "plus_double x NegInf = NegInf"
| "plus_double (Fin a) (Fin b) = fl (a + b)"

fun uminus_double :: "double \<Rightarrow> double" where
  "uminus_double NaN = NaN"
| "uminus_double PosInf = NegInf"
| "uminus_double NegInf = PosInf"
| "uminus_double (Fin a) = Fin (- a)"

definition minus_double :: "double \<Rightarrow> double \<Rightarrow> double" where
  "minus_double x y = x + (- y)"

fun times_double :: "double \<Rightarrow> double \<Rightarrow> double" where
  "times_double NaN y = NaN"
| "times_double x NaN = NaN"
| "times_double (Fin a) (Fin b) = fl (a * b)"
| "times_double (Fin a) y =
     (if a = 0 then NaN else if 0 < a then y else - y)"
| "times_double x (Fin b) =
     (if b = 0 then NaN else if 0 < b then x else - x)"
| "times_double x y = (if x = y then PosInf else NegInf)"

fun divide_double :: "double \<Rightarrow> double \<Rightarrow> double" where
  "divide_double NaN y = NaN"
| "divide_double x NaN = NaN"
| "divide_double (Fin a) (Fin b) =
     (if b = 0 then (if a = 0 then NaN else if 0 < a then PosInf else NegInf)
      else fl (a / b))"
| "divide_double (Fin a) y = Fin 0"
| "divide_double x (Fin b) = (if 0 \<le> b then x else - x)"
| "divide_double x y = NaN"

definition inverse_double :: "double \<Rightarrow> double" where
  "inverse_double x = divide (Fin 1) x"

fun abs_double :: "double \<Rightarrow> double" where
  "abs_double NaN = NaN"
| "abs_double PosInf = PosInf"
| "abs_double NegInf = PosInf"
| "abs_double (Fin a) = Fin \<bar>a\<bar>"

fun less_double :: "double \<Rightarrow> double \<Rightarrow> bool" where
  "less_double NaN y = False"
| "less_double x NaN = False"
| "less_double x NegInf = False"
| "less_double PosInf y = False"
| "less_double NegInf y = True"
| "less_double x PosInf = True"
| "less_double (Fin a) (Fin b) = (a < b)"

fun less_eq_double :: "double \<Rightarrow> double \<Rightarrow> bool" where
  "less_eq_double NaN y = False"
| "less_eq_double x NaN = False"
| "less_eq_double NegInf y = True"
| "less_eq_double x PosInf = True"
| "less_eq_double x NegInf = False"
| "less_eq_double PosInf y = False"
| "less_eq_double (Fin a) (Fin b) = (a \<le> b)"

instance ..

end

section \<open>Utility functions\<close>

text \<open>
  \<open>genId\<close> is \<open>'_' + Math.random().toString(36).slice(2, 10)\<close>. The random draw is an input
  of the model: \<open>rnd\<close> is the text \<open>Math.random().toString(36).slice(2, 10)\<close>.
\<close>

definition genId :: "jsstring \<Rightarrow> jsstring" where
  "genId rnd = str ''_'' @ rnd"

text \<open>
  The code units \<open>String.prototype.trim\<close> strips: the WhiteSpace and LineTerminator
  productions of ECMAScript (TAB, LF, VT, FF, CR, SP, NBSP, the Unicode space separators,
  LS, PS and the byte order mark).
\<close>

definition isWhiteSpace :: "nat \<Rightarrow> bool" where
  "isWhiteSpace c \<longleftrightarrow>
     (9 \<le> c \<and> c \<le> 13) \<or> c = 32 \<or> c = 160 \<or> c = 5760 \<or> (8192 \<le> c \<and> c \<le> 8202) \<or>
     c = 8232 \<or> c = 8233 \<or> c = 8239 \<or> c = 8287 \<or> c = 12288 \<or> c = 65279"

definition trim :: "jsstring \<Rightarrow> jsstring" where
  "trim s = rev (dropWhile isWhiteSpace (rev (dropWhile isWhiteSpace s)))"

section \<open>Domain store: the mutators of \<open>App\<close>\<close>

text \<open>
  Each mutator calls \<open>setData\<close> with a function of the previous snapshot; the model is that
  function, with the early \<open>return\<close> of the name guard as the unchanged snapshot.
  \<open>parseFloat\<close> is a parameter: it turns the form's text into a number.
\<close>

definition addAccount ::
  "('b \<Rightarrow> 'n) \<Rightarrow> jsstring \<Rightarrow> jsstring \<Rightarrow> 'b \<Rightarrow> 'n snapshot \<Rightarrow> 'n snapshot" where
  "addAccount parseFloat rnd name bal d =
     (if trim name = [] then d
      else d\<lparr>accounts := accounts d @
             [\<lparr>account_id = genId rnd, account_name = name, balance = parseFloat bal\<rparr>]\<rparr>)"

definition addCategory :: "jsstring \<Rightarrow> jsstring \<Rightarrow> 'n::zero snapshot \<Rightarrow> 'n snapshot" where
  "addCategory rnd name d =
     (if trim name = [] then d
      else d\<lparr>categories := categories d @
             [\<lparr>category_id = genId rnd, category_name = name, budgeted = 0\<rparr>]\<rparr>)"

definition budgetCategory ::
  "('b \<Rightarrow> 'n) \<Rightarrow> jsstring \<Rightarrow> 'b \<Rightarrow> 'n::plus snapshot \<Rightarrow> 'n snapshot" where
  "budgetCategory parseFloat i delta d =
     d\<lparr>categories :=
         map (\<lambda>c. if category_id c = i then c\<lparr>budgeted := budgeted c + parseFloat delta\<rparr> else c)
           (categories d)\<rparr>"

text \<open>\<open>now\<close> is the text \<open>new Date().toISOString()\<close>.\<close>

definition addTransaction ::
  "jsstring \<Rightarrow> jsstring \<Rightarrow> 'n txinput \<Rightarrow> 'n::plus snapshot \<Rightarrow> 'n snapshot" where
  "addTransaction rnd now tx d =
     d\<lparr>transactions := transactions d @
         [\<lparr>accountId = accountId tx, categoryId = categoryId tx, amount = amount tx,
           memo = memo tx, transaction_id = genId rnd, date = now\<rparr>],
       accounts :=
         map (\<lambda>a. if account_id a = accountId tx then a\<lparr>balance := balance a + amount tx\<rparr> else a)
           (accounts d)\<rparr>"

section \<open>Sequences of operations\<close>

text \<open>
  A user action calls one mutator. An operation carries the mutator's arguments and the
  values the environment supplies to it (the random draw of \<open>genId\<close>, the clock).
\<close>

datatype ('b, 'n) op =
  AddAccount jsstring jsstring 'b
| AddCategory jsstring jsstring
| BudgetCategory jsstring 'b
| AddTransaction jsstring jsstring "'n txinput"

fun apply_op :: "('b \<Rightarrow> 'n) \<Rightarrow> ('b, 'n) op \<Rightarrow> 'n::{zero,plus} snapshot \<Rightarrow> 'n snapshot" where
  "apply_op parseFloat (AddAccount rnd name bal) d = addAccount parseFloat rnd name bal d"
| "apply_op parseFloat (AddCategory rnd name) d = addCategory rnd name d"
| "apply_op parseFloat (BudgetCategory i delta) d = budgetCategory parseFloat i delta d"
| "apply_op parseFloat (AddTransaction rnd now tx) d = addTransaction rnd now tx d"

fun run :: "('b \<Rightarrow> 'n) \<Rightarrow> ('b, 'n) op list \<Rightarrow> 'n::{zero,plus} snapshot \<Rightarrow> 'n snapshot" where
  "run parseFloat [] d = d"
| "run parseFloat (x # xs) d = run parseFloat xs (apply_op parseFloat x d)"

subsection \<open>Reconciliation of balances\<close>

text \<open>
  The balance of an account recomputed from the log: the amounts of the transactions that
  reference the account id \<open>i\<close> are added to the opening balance \<open>ob\<close> one by one, in the
  order of the log, as \<open>addTransaction\<close> adds them.
\<close>

definition recomputed :: "'n::plus snapshot \<Rightarrow> 'n \<Rightarrow> jsstring \<Rightarrow> 'n" where
  "recomputed d ob i =
     foldl (\<lambda>s t. s + amount t) ob (filter (\<lambda>t. accountId t = i) (transactions d))"

text \<open>
  The opening balances are not stored in the snapshot. They are kept beside it, one per
  account, in the order of \<open>accounts\<close>: a snapshot is reconciled with them when every
  account's balance is the one recomputed from its opening balance and the log.
\<close>

definition reconciled :: "'n::plus snapshot \<Rightarrow> 'n list \<Rightarrow> bool" where
  "reconciled d os =
     list_all2 (\<lambda>a ob. balance a = recomputed d ob (account_id a)) (accounts d) os"

text \<open>
  The specification's words: the sum of the amounts of the transactions that reference
  the account (added up from 0, as the selectors add), and a balance that equals the opening
  balance plus that sum.
\<close>

definition activity :: "'n::{zero,plus} snapshot \<Rightarrow> jsstring \<Rightarrow> 'n" where
  "activity d i =
     foldl (\<lambda>s t. s + amount t) 0 (filter (\<lambda>t. accountId t = i) (transactions d))"

definition opening_plus_sum :: "'n::{zero,plus} snapshot \<Rightarrow> 'n list \<Rightarrow> bool" where
  "opening_plus_sum d os =
     list_all2 (\<lambda>a ob. balance a = ob + activity d (account_id a)) (accounts d) os"

text \<open>The opening balances that the balances and the log of a snapshot imply.\<close>

definition impliedOpenings :: "'n::{zero,plus,minus} snapshot \<Rightarrow> 'n list" where
  "impliedOpenings d = map (\<lambda>a. balance a - activity d (account_id a)) (accounts d)"

text \<open>The opening balances after a sequence of operations: each account added brings its own.\<close>

fun openings :: "('b \<Rightarrow> 'n) \<Rightarrow> ('b, 'n) op list \<Rightarrow> 'n list \<Rightarrow> 'n list" where
  "openings parseFloat [] os = os"
| "openings parseFloat (AddAccount rnd name bal # xs) os =
     openings parseFloat xs (if trim name = [] then os else os @ [parseFloat bal])"
| "openings parseFloat (x # xs) os = openings parseFloat xs os"

text \<open>
  A sequence is valid when the id drawn for each new account is fresh for the transaction
  log: no transaction recorded so far references it.
\<close>

fun fresh_account :: "('b, 'n) op \<Rightarrow> 'n snapshot \<Rightarrow> bool" where
  "fresh_account (AddAccount rnd name bal) d =
     (trim name = [] \<or> genId rnd \<notin> set (map accountId (transactions d)))"
| "fresh_account x d = True"

fun valid_ops :: "('b \<Rightarrow> 'n) \<Rightarrow> ('b, 'n) op list \<Rightarrow> 'n::{zero,plus} snapshot \<Rightarrow> bool" where
  "valid_ops parseFloat [] d = True"
| "valid_ops parseFloat (x # xs) d =
     (fresh_account x d \<and> valid_ops parseFloat xs (apply_op parseFloat x d))"

text \<open>
  The forms offer only existing accounts for a transaction. When, in addition, the id drawn
  for a new account is new among the accounts, the log never references an id before its
  account exists.
\<close>

definition refs_exist :: "'n snapshot \<Rightarrow> bool" where
  "refs_exist d \<longleftrightarrow>
     set (map accountId (transactions d)) \<subseteq> set (map account_id (accounts d))"

fun wellformed :: "('b, 'n) op \<Rightarrow> 'n snapshot \<Rightarrow> bool" where
  "wellformed (AddAccount rnd name bal) d =
     (trim name = [] \<or> genId rnd \<notin> set (map account_id (accounts d)))"
| "wellformed (AddTransaction rnd now tx) d =
     (accountId tx \<in> set (map account_id (accounts d)))"
| "wellformed x d = True"

fun wellformed_ops ::
  "('b \<Rightarrow> 'n) \<Rightarrow> ('b, 'n) op list \<Rightarrow> 'n::{zero,plus} snapshot \<Rightarrow> bool" where
  "wellformed_ops parseFloat [] d = True"
| "wellformed_ops parseFloat (x # xs) d =
     (wellformed x d \<and> wellformed_ops parseFloat xs (apply_op parseFloat x d))"

subsection \<open>Identifiers\<close>

definition ids_distinct :: "'n snapshot \<Rightarrow> bool" where
  "ids_distinct d \<longleftrightarrow>
     distinct (map account_id (accounts d)) \<and>
     distinct (map category_id (categories d)) \<and>
     distinct (map transaction_id (transactions d))"

text \<open>The id drawn by an operation is not yet used in the collection it goes to.\<close>

fun fresh_id :: "('b, 'n) op \<Rightarrow> 'n snapshot \<Rightarrow> bool" where
  "fresh_id (AddAccount rnd name bal) d =
     (trim name = [] \<or> genId rnd \<notin> set (map account_id (accounts d)))"
| "fresh_id (AddCategory rnd name) d =
     (trim name = [] \<or> genId rnd \<notin> set (map category_id (categories d)))"
| "fresh_id (BudgetCategory i delta) d = True"
| "fresh_id (AddTransaction rnd now tx) d =
     (genId rnd \<notin> set (map transaction_id (transactions d)))"

fun fresh_ids :: "('b \<Rightarrow> 'n) \<Rightarrow> ('b, 'n) op list \<Rightarrow> 'n::{zero,plus} snapshot \<Rightarrow> bool" where
  "fresh_ids parseFloat [] d = True"
| "fresh_ids parseFloat (x # xs) d =
     (fresh_id x d \<and> fresh_ids parseFloat xs (apply_op parseFloat x d))"

section \<open>Aggregation: the data selectors of \<open>App\<close> and \<open>Dashboard\<close>\<close>










text \<open>
  \<open>spendingChange\<close> of \<open>Dashboard\<close>, as a function of the two monthly totals:
  \<open>lastMonthSpending > 0 ? ((thisMonthSpending - lastMonthSpending) / lastMonthSpending * 100) : 0\<close>,
  in the arithmetic of doubles.
\<close>

definition spendingChange :: "double \<Rightarrow> double \<Rightarrow> double" where
  "spendingChange thisMonthSpending lastMonthSpending =
     (if lastMonthSpending > 0
      then (thisMonthSpending - lastMonthSpending) / lastMonthSpending * Fin 100
      else 0)"

section \<open>Import of a file\<close>

text \<open>
  What \<open>FileReader.readAsText\<close> delivers: the text of the file (\<open>onload\<close>) or a failure
  (\<open>onerror\<close>).
\<close>

datatype js_file = Readable jsstring | Unreadable

text \<open>A JavaScript \<open>Error\<close> with its message.\<close>

datatype error = Error jsstring

text \<open>
  \<open>JSON.parse\<close> is a parameter: a function from the text to the parsed value, \<open>None\<close> when
  it throws. The promise \<open>loadDataFromFile\<close> returns is its outcome: \<open>Inr\<close> the value it
  resolves to, \<open>Inl\<close> the error it rejects with.
\<close>

definition loadDataFromFile :: "(jsstring \<Rightarrow> 'v option) \<Rightarrow> js_file \<Rightarrow> error + 'v" where
  "loadDataFromFile JSON_parse f =
     (case f of
        Readable result \<Rightarrow>
          (case JSON_parse result of
             Some data \<Rightarrow> Inr data
           | None \<Rightarrow> Inl (Error (str ''Invalid JSON file'')))
      | Unreadable \<Rightarrow> Inl (Error (str ''Error reading file'')))"

text \<open>
  The state of \<open>App\<close> the handler touches, and the messages it has shown with \<open>alert\<close>.
  The value in \<open>data\<close> is whatever was last stored there, so its type is a parameter.
\<close>

record 'v app =
  data :: 'v
  isLoading :: bool
  alerts :: "jsstring list"

text \<open>\<open>files\<close> is \<open>event.target.files\<close>; the handler is run to its end.\<close>

definition handleFileUpload ::
  "(jsstring \<Rightarrow> 'v option) \<Rightarrow> js_file list \<Rightarrow> 'v app \<Rightarrow> 'v app" where
  "handleFileUpload JSON_parse files st =
     (case files of
        [] \<Rightarrow> st
      | f # _ \<Rightarrow>
          let st1 = st\<lparr>isLoading := True\<rparr>;
              st2 = (case loadDataFromFile JSON_parse f of
                       Inr newData \<Rightarrow> st1\<lparr>data := newData\<rparr>
                     | Inl (Error message) \<Rightarrow>
                         st1\<lparr>alerts := alerts st1 @ [str ''Error loading file: '' @ message]\<rparr>)
          in st2\<lparr>isLoading := False\<rparr>)"

section \<open>Example values\<close>

text \<open>\<open>parseFloat\<close> of an argument that is a number already.\<close>

definition parseNumber :: "'n \<Rightarrow> 'n" where
  "parseNumber x = x"

definition milk :: "rat txinput" where
  "milk = \<lparr>accountId = str ''_a'', categoryId = str ''_g'', amount = -20, memo = str ''milk''\<rparr>"

text \<open>
  The scenario of the specification: an account with 100, a category, and an expense of 20.
\<close>

definition scenario :: "(rat, rat) op list" where
  "scenario =
     [AddAccount (str ''a'') (str ''Checking'') 100,
      AddCategory (str ''g'') (str ''Groceries''),
      AddTransaction (str ''t'') (str ''2024-01-01T00:00:00.000Z'') milk]"

definition afterScenario :: "rat snapshot" where
  "afterScenario =
     \<lparr>accounts = [\<lparr>account_id = str ''_a'', account_name = str ''Checking'', balance = 80\<rparr>],
      categories = [\<lparr>category_id = str ''_g'', category_name = str ''Groceries'', budgeted = 0\<rparr>],
      transactions = [\<lparr>accountId = str ''_a'', categoryId = str ''_g'', amount = -20,
         memo = str ''milk'', transaction_id = str ''_t'',
         date = str ''2024-01-01T00:00:00.000Z''\<rparr>]\<rparr>"

text \<open>A transaction for an account id that no account has.\<close>

definition stray :: "rat txinput" where
  "stray = \<lparr>accountId = str ''_zz'', categoryId = str ''_g'', amount = -5, memo = str []\<rparr>"

text \<open>\<open>Math.random()\<close> returns the same number for two accounts.\<close>

definition collision :: "(rat, rat) op list" where
  "collision =
     [AddAccount (str ''i'') (str ''Checking'') 100,
      AddAccount (str ''i'') (str ''Savings'') 50]"

text \<open>
  The same, with a transaction on the first account before the second account is added.
\<close>

definition reuse :: "(rat, rat) op list" where
  "reuse =
     [AddAccount (str ''i'') (str ''Checking'') 100,
      AddTransaction (str ''t'') (str ''2024-01-01T00:00:00.000Z'')
        \<lparr>accountId = str ''_i'', categoryId = str ''_g'', amount = -20, memo = str ''milk''\<rparr>,
      AddAccount (str ''i'') (str ''Savings'') 50]"


definition groceries :: "rat category" where
  "groceries = \<lparr>category_id = str ''_g'', category_name = str ''Groceries'', budgeted = 0\<rparr>"

definition rent :: "rat category" where
  "rent = \<lparr>category_id = str ''_r'', category_name = str ''Rent'', budgeted = -50\<rparr>"


text \<open>A parser that knows one document, the empty snapshot, and rejects every other text.\<close>

definition emptyText :: jsstring where
  \<open>emptyText = str ''{"accounts": [], "categories": [], "transactions": []}''\<close>

definition parseEmpty :: "jsstring \<Rightarrow> rat snapshot option" where
  "parseEmpty t = (if t = emptyText then Some emptySnapshot else None)"

text \<open>
  A snapshot with two accounts, two categories and two transactions, and a sequence that
  adds two accounts, a category and two transactions to it and budgets a category.
\<close>

definition ledger :: "rat snapshot" where
  "ledger =
     \<lparr>accounts = [\<lparr>account_id = str ''_a'', account_name = str ''Checking'', balance = 70\<rparr>,
                  \<lparr>account_id = str ''_b'', account_name = str ''Savings'', balance = 500\<rparr>],
      categories = [groceries, rent],
      transactions =
        [\<lparr>accountId = str ''_a'', categoryId = str ''_g'', amount = -20, memo = str ''milk'',
          transaction_id = str ''_t'', date = str ''2024-01-01T00:00:00.000Z''\<rparr>,
         \<lparr>accountId = str ''_a'', categoryId = str ''_g'', amount = -10, memo = str ''eggs'',
          transaction_id = str ''_u'', date = str ''2024-01-02T00:00:00.000Z''\<rparr>]\<rparr>"

definition growth :: "(rat, rat) op list" where
  "growth =
     [AddAccount (str ''c'') (str ''Cash'') 5,
      AddTransaction (str ''v'') (str ''2024-01-03T00:00:00.000Z'')
        \<lparr>accountId = str ''_b'', categoryId = str ''_r'', amount = -25, memo = str ''rent''\<rparr>,
      AddCategory (str ''s'') (str ''Salary''),
      BudgetCategory (str ''_g'') 10,
      AddAccount (str ''d'') (str ''Card'') 0,
      AddTransaction (str ''w'') (str ''2024-01-04T00:00:00.000Z'')
        \<lparr>accountId = str ''_c'', categoryId = str ''_s'', amount = 100, memo = str ''pay''\<rparr>]"

definition afterGrowth :: "rat snapshot" where
  "afterGrowth =
     \<lparr>accounts = [\<lparr>account_id = str ''_a'', account_name = str ''Checking'', balance = 70\<rparr>,
                  \<lparr>account_id = str ''_b'', account_name = str ''Savings'', balance = 475\<rparr>,
                  \<lparr>account_id = str ''_c'', account_name = str ''Cash'', balance = 105\<rparr>,
                  \<lparr>account_id = str ''_d'', account_name = str ''Card'', balance = 0\<rparr>],
      categories = [\<lparr>category_id = str ''_g'', category_name = str ''Groceries'', budgeted = 10\<rparr>,
                    rent,
                    \<lparr>category_id = str ''_s'', category_name = str ''Salary'', budgeted = 0\<rparr>],
      transactions =
        [\<lparr>accountId = str ''_a'', categoryId = str ''_g'', amount = -20, memo = str ''milk'',
          transaction_id = str ''_t'', date = str ''2024-01-01T00:00:00.000Z''\<rparr>,
         \<lparr>accountId = str ''_a'', categoryId = str ''_g'', amount = -10, memo = str ''eggs'',
          transaction_id = str ''_u'', date = str ''2024-01-02T00:00:00.000Z''\<rparr>,
         \<lparr>accountId = str ''_b'', categoryId = str ''_r'', amount = -25, memo = str ''rent'',
          transaction_id = str ''_v'', date = str ''2024-01-03T00:00:00.000Z''\<rparr>,
         \<lparr>accountId = str ''_c'', categoryId = str ''_s'', amount = 100, memo = str ''pay'',
          transaction_id = str ''_w'', date = str ''2024-01-04T00:00:00.000Z''\<rparr>]\<rparr>"

text \<open>
  In doubles: an account opened with 0.1 receives 0.2 and later 0.3; between the two a second
  account is opened with 50, and it pays 20 at the end. Every id drawn is new.
\<close>

definition drift :: "(double, double) op list" where
  "drift =
     [AddAccount (str ''f'') (str ''Float'') (fl (1 / 10)),
      AddTransaction (str ''t'') (str ''2024-01-01T00:00:00.000Z'')
        \<lparr>accountId = str ''_f'', categoryId = str ''_g'', amount = fl (1 / 5), memo = str []\<rparr>,
      AddAccount (str ''h'') (str ''Giro'') (Fin 50),
      AddTransaction (str ''u'') (str ''2024-01-02T00:00:00.000Z'')
        \<lparr>accountId = str ''_f'', categoryId = str ''_g'', amount = fl (3 / 10), memo = str []\<rparr>,
      AddTransaction (str ''v'') (str ''2024-01-03T00:00:00.000Z'')
        \<lparr>accountId = str ''_h'', categoryId = str ''_g'', amount = Fin (- 20), memo = str []\<rparr>]"

text \<open>
  The doubles 0.1, 0.2 and 0.3 and the sums the example meets: 0.30000000000000004,
  0.6000000000000001 and 0.6.
\<close>

definition d_0_1 :: double where
  "d_0_1 = Fin (3602879701896397 / 36028797018963968)"

definition d_0_2 :: double where
  "d_0_2 = Fin (3602879701896397 / 18014398509481984)"

definition d_0_3 :: double where
  "d_0_3 = Fin (5404319552844595 / 18014398509481984)"

definition d_0_30000000000000004 :: double where
  "d_0_30000000000000004 = Fin (1351079888211149 / 4503599627370496)"

definition d_0_6000000000000001 :: double where
  "d_0_6000000000000001 = Fin (1351079888211149 / 2251799813685248)"

definition d_0_6 :: double where
  "d_0_6 = Fin (5404319552844595 / 9007199254740992)"

definition afterDrift :: "double snapshot" where
  "afterDrift =
     \<lparr>accounts =
        [\<lparr>account_id = str ''_f'', account_name = str ''Float'', balance = d_0_6000000000000001\<rparr>,
         \<lparr>account_id = str ''_h'', account_name = str ''Giro'', balance = Fin 30\<rparr>],
      categories = [],
      transactions =
        [\<lparr>accountId = str ''_f'', categoryId = str ''_g'', amount = d_0_2, memo = str [],
          transaction_id = str ''_t'', date = str ''2024-01-01T00:00:00.000Z''\<rparr>,
         \<lparr>accountId = str ''_f'', categoryId = str ''_g'', amount = d_0_3, memo = str [],
          transaction_id = str ''_u'', date = str ''2024-01-02T00:00:00.000Z''\<rparr>,
         \<lparr>accountId = str ''_h'', categoryId = str ''_g'', amount = Fin (- 20), memo = str [],
          transaction_id = str ''_v'', date = str ''2024-01-03T00:00:00.000Z''\<rparr>]\<rparr>"

section \<open>Rounding to a double\<close>

lemma pow2_powi: "pow2 e = 2 powi e"
proof (cases "0 \<le> e")
  case True
  then show ?thesis by (simp add: pow2_def power_int_def)
next
  case False
  then show ?thesis by (simp add: pow2_def power_int_def power_one_over inverse_eq_divide)
qed

lemma floor_log2_bounds:
  assumes "0 < a"
  shows "2 powi floor_log2 a \<le> a \<and> a < 2 powi (floor_log2 a + 1)"
proof -
  obtain p q where pq: "quotient_of a = (p, q)" by (cases "quotient_of a")
  then have q: "0 < q" and a: "a = of_int p / of_int q"
    by (simp_all add: quotient_of_denom_pos quotient_of_div)
  with assms have p: "0 < p" by (simp add: zero_less_divide_iff)
  define d where "d = bitlen p - bitlen q"
  have bp: "1 \<le> bitlen p" and bq: "1 \<le> bitlen q"
    using p q by (auto simp: bitlen_alt_def)
  have conv: "(2::rat) powi k = of_int (2 ^ nat k)" if "0 \<le> k" for k
    using that by (simp add: power_int_def)
  from bitlen_bounds [OF p] have "rat_of_int (2 ^ nat (bitlen p - 1)) \<le> of_int p"
    and "rat_of_int p < of_int (2 ^ nat (bitlen p))"
    unfolding of_int_le_iff of_int_less_iff by blast+
  then have p1: "(2::rat) powi (bitlen p - 1) \<le> of_int p"
    and p2: "of_int p < (2::rat) powi bitlen p"
    using bp by (simp_all only: conv [symmetric])
  from bitlen_bounds [OF q] have "rat_of_int (2 ^ nat (bitlen q - 1)) \<le> of_int q"
    and "rat_of_int q < of_int (2 ^ nat (bitlen q))"
    unfolding of_int_le_iff of_int_less_iff by blast+
  then have q1: "(2::rat) powi (bitlen q - 1) \<le> of_int q"
    and q2: "of_int q < (2::rat) powi bitlen q"
    using bq by (simp_all only: conv [symmetric])
  have qpos: "(0::rat) < of_int q" using q by simp
  have lo: "(2::rat) powi (d - 1) < a"
  proof -
    have "(2::rat) powi (d - 1) * of_int q < 2 powi (d - 1) * 2 powi bitlen q"
      using q2 by (intro mult_strict_left_mono) simp_all
    also have "\<dots> = 2 powi (bitlen p - 1)"
      by (simp add: d_def flip: power_int_add)
    also have "\<dots> \<le> of_int p" by (rule p1)
    finally show ?thesis using qpos by (simp add: a pos_less_divide_eq)
  qed
  have hi: "a < (2::rat) powi (d + 1)"
  proof -
    have "of_int p < (2::rat) powi bitlen p" by (rule p2)
    also have "\<dots> = 2 powi (d + 1) * 2 powi (bitlen q - 1)"
      by (simp add: d_def flip: power_int_add)
    also have "\<dots> \<le> 2 powi (d + 1) * of_int q"
      using q1 by (intro mult_left_mono) simp_all
    finally show ?thesis using qpos by (simp add: a pos_divide_less_eq)
  qed
  show ?thesis
  proof (cases "2 powi d \<le> a")
    case True
    then have "floor_log2 a = d" by (simp add: floor_log2_def pq d_def Let_def pow2_powi)
    with True hi show ?thesis by simp
  next
    case False
    then have "floor_log2 a = d - 1" by (simp add: floor_log2_def pq d_def Let_def pow2_powi)
    with False lo show ?thesis by simp
  qed
qed

lemma floor_log2_eqI:
  assumes "2 powi e \<le> a" and "a < 2 powi (e + 1)"
  shows "floor_log2 a = e"
proof -
  have "(0::rat) < 2 powi e" by simp
  then have "0 < a" using assms(1) by (rule less_le_trans)
  note b = floor_log2_bounds [OF this]
  have "\<not> floor_log2 a < e"
  proof
    assume "floor_log2 a < e"
    then have "(2::rat) powi (floor_log2 a + 1) \<le> 2 powi e"
      by (intro power_int_increasing) simp_all
    with b assms show False by simp
  qed
  moreover have "\<not> e < floor_log2 a"
  proof
    assume "e < floor_log2 a"
    then have "(2::rat) powi (e + 1) \<le> 2 powi floor_log2 a"
      by (intro power_int_increasing) simp_all
    with b assms show False by simp
  qed
  ultimately show ?thesis by simp
qed

lemma round_half_even_eqI:
  assumes "of_int n - 1 / 2 < q" and "q < of_int n + 1 / 2"
  shows "round_half_even q = n"
proof (cases "q < of_int n")
  case True
  with assms have "\<lfloor>q\<rfloor> = n - 1" by (intro floor_unique) simp_all
  with assms show ?thesis by (simp add: round_half_even_def Let_def)
next
  case False
  with assms have "\<lfloor>q\<rfloor> = n" by (intro floor_unique) simp_all
  with assms show ?thesis by (simp add: round_half_even_def Let_def)
qed

lemma round_half_even_tie:
  assumes "q = of_int f + 1 / 2"
  shows "round_half_even q = (if even f then f else f + 1)"
proof -
  have "\<lfloor>q\<rfloor> = f" unfolding assms by (intro floor_unique) simp_all
  then show ?thesis by (simp add: round_half_even_def Let_def assms)
qed

text \<open>
  The value of \<open>fl\<close> at a positive rational, from its binary exponent \<open>e\<close> and the
  rounded significand \<open>n\<close>.
\<close>

lemma fl_pos:
  assumes "pow2 e \<le> x" and "x < pow2 (e + 1)" and "- 1022 \<le> e"
    and "round_half_even (x / pow2 (e - 52)) = n"
    and "of_int n * pow2 (e - 52) = r"
  shows "fl x = (if pow2 1024 \<le> r then PosInf else Fin r)"
proof -
  have "(0::rat) < 2 powi e" by simp
  then have "0 < x" using assms(1) unfolding pow2_powi by (rule less_le_trans)
  moreover have "floor_log2 x = e" using assms(1,2) unfolding pow2_powi by (rule floor_log2_eqI)
  moreover have "max e (- 1022) = e" using assms(3) by simp
  ultimately show ?thesis using assms(4,5) by (simp add: fl_def Let_def)
qed

lemma fl_uminus: "fl (- x) = - fl x"
  by (cases "x = 0"; cases "0 < x") (auto simp: fl_def Let_def)

lemma fl_not_NaN [simp]: "fl x \<noteq> NaN"
  by (simp add: fl_def Let_def)

subsection \<open>Values of \<open>fl\<close> used in the examples\<close>

lemma fl_tenth: "fl (1 / 10) = Fin (3602879701896397 / 36028797018963968)"
proof -
  have r: "round_half_even (1 / 10 / pow2 (- 4 - 52)) = 7205759403792794"
    by (rule round_half_even_eqI) (simp_all add: pow2_def)
  from fl_pos [where e = "- 4" and x = "1 / 10", OF _ _ _ r refl] show ?thesis
    by (simp add: pow2_def)
qed

lemma fl_fifth: "fl (1 / 5) = Fin (3602879701896397 / 18014398509481984)"
proof -
  have r: "round_half_even (1 / 5 / pow2 (- 3 - 52)) = 7205759403792794"
    by (rule round_half_even_eqI) (simp_all add: pow2_def)
  from fl_pos [where e = "- 3" and x = "1 / 5", OF _ _ _ r refl] show ?thesis
    by (simp add: pow2_def)
qed

lemma fl_three_tenths: "fl (3 / 10) = Fin (5404319552844595 / 18014398509481984)"
proof -
  have r: "round_half_even (3 / 10 / pow2 (- 2 - 52)) = 5404319552844595"
    by (rule round_half_even_eqI) (simp_all add: pow2_def)
  from fl_pos [where e = "- 2" and x = "3 / 10", OF _ _ _ r refl] show ?thesis
    by (simp add: pow2_def)
qed

lemma fl_sum_tenth_fifth: "fl (10808639105689191 / 36028797018963968) = Fin (1351079888211149 / 4503599627370496)"
proof -
  have r: "round_half_even (10808639105689191 / 36028797018963968 / pow2 (- 2 - 52)) = 5404319552844596"
    by (subst round_half_even_tie [where f = 5404319552844595]) (simp_all add: pow2_def)
  from fl_pos [where e = "- 2" and x = "10808639105689191 / 36028797018963968", OF _ _ _ r refl] show ?thesis
    by (simp add: pow2_def)
qed

lemma fl_sum_then_three_tenths: "fl (10808639105689191 / 18014398509481984) = Fin (1351079888211149 / 2251799813685248)"
proof -
  have r: "round_half_even (10808639105689191 / 18014398509481984 / pow2 (- 1 - 52)) = 5404319552844596"
    by (subst round_half_even_tie [where f = 5404319552844595]) (simp_all add: pow2_def)
  from fl_pos [where e = "- 1" and x = "10808639105689191 / 18014398509481984", OF _ _ _ r refl] show ?thesis
    by (simp add: pow2_def)
qed

lemma fl_fifth_again: "fl (3602879701896397 / 18014398509481984) = Fin (3602879701896397 / 18014398509481984)"
proof -
  have r: "round_half_even (3602879701896397 / 18014398509481984 / pow2 (- 3 - 52)) = 7205759403792794"
    by (rule round_half_even_eqI) (simp_all add: pow2_def)
  from fl_pos [where e = "- 3" and x = "3602879701896397 / 18014398509481984", OF _ _ _ r refl] show ?thesis
    by (simp add: pow2_def)
qed

lemma fl_sum_fifth_three_tenths: "fl (1 / 2) = Fin (1 / 2)"
proof -
  have r: "round_half_even (1 / 2 / pow2 (- 1 - 52)) = 4503599627370496"
    by (rule round_half_even_eqI) (simp_all add: pow2_def)
  from fl_pos [where e = "- 1" and x = "1 / 2", OF _ _ _ r refl] show ?thesis
    by (simp add: pow2_def)
qed

lemma fl_sum_tenth_half: "fl (21617278211378381 / 36028797018963968) = Fin (5404319552844595 / 9007199254740992)"
proof -
  have r: "round_half_even (21617278211378381 / 36028797018963968 / pow2 (- 1 - 52)) = 5404319552844595"
    by (rule round_half_even_eqI) (simp_all add: pow2_def)
  from fl_pos [where e = "- 1" and x = "21617278211378381 / 36028797018963968", OF _ _ _ r refl] show ?thesis
    by (simp add: pow2_def)
qed

lemma fl_three_fifths: "fl (3 / 5) = Fin (5404319552844595 / 9007199254740992)"
proof -
  have r: "round_half_even (3 / 5 / pow2 (- 1 - 52)) = 5404319552844595"
    by (rule round_half_even_eqI) (simp_all add: pow2_def)
  from fl_pos [where e = "- 1" and x = "3 / 5", OF _ _ _ r refl] show ?thesis
    by (simp add: pow2_def)
qed

lemma fl_20: "fl (20) = Fin (20)"
proof -
  have r: "round_half_even (20 / pow2 (4 - 52)) = 5629499534213120"
    by (rule round_half_even_eqI) (simp_all add: pow2_def)
  from fl_pos [where e = "4" and x = "20", OF _ _ _ r refl] show ?thesis
    by (simp add: pow2_def)
qed

lemma fl_30: "fl (30) = Fin (30)"
proof -
  have r: "round_half_even (30 / pow2 (4 - 52)) = 8444249301319680"
    by (rule round_half_even_eqI) (simp_all add: pow2_def)
  from fl_pos [where e = "4" and x = "30", OF _ _ _ r refl] show ?thesis
    by (simp add: pow2_def)
qed

lemma fl_50: "fl (50) = Fin (50)"
proof -
  have r: "round_half_even (50 / pow2 (5 - 52)) = 7036874417766400"
    by (rule round_half_even_eqI) (simp_all add: pow2_def)
  from fl_pos [where e = "5" and x = "50", OF _ _ _ r refl] show ?thesis
    by (simp add: pow2_def)
qed

lemma fl_7: "fl (7) = Fin (7)"
proof -
  have r: "round_half_even (7 / pow2 (2 - 52)) = 7881299347898368"
    by (rule round_half_even_eqI) (simp_all add: pow2_def)
  from fl_pos [where e = "2" and x = "7", OF _ _ _ r refl] show ?thesis
    by (simp add: pow2_def)
qed

lemma fl_half: "fl (1 / 2) = Fin (1 / 2)"
proof -
  have r: "round_half_even (1 / 2 / pow2 (- 1 - 52)) = 4503599627370496"
    by (rule round_half_even_eqI) (simp_all add: pow2_def)
  from fl_pos [where e = "- 1" and x = "1 / 2", OF _ _ _ r refl] show ?thesis
    by (simp add: pow2_def)
qed

lemma fl_7_100: "fl (7 / 100) = Fin (1261007895663739 / 18014398509481984)"
proof -
  have r: "round_half_even (7 / 100 / pow2 (- 4 - 52)) = 5044031582654956"
    by (rule round_half_even_eqI) (simp_all add: pow2_def)
  from fl_pos [where e = "- 4" and x = "7 / 100", OF _ _ _ r refl] show ?thesis
    by (simp add: pow2_def)
qed

lemma fl_7_100_times_100: "fl (31525197391593475 / 4503599627370496) = Fin (7881299347898369 / 1125899906842624)"
proof -
  have r: "round_half_even (31525197391593475 / 4503599627370496 / pow2 (2 - 52)) = 7881299347898369"
    by (rule round_half_even_eqI) (simp_all add: pow2_def)
  from fl_pos [where e = "2" and x = "31525197391593475 / 4503599627370496", OF _ _ _ r refl] show ?thesis
    by (simp add: pow2_def)
qed

lemma fl_1e307: "fl (10000000000000000000000000000000000000000000000000000000000000000000000000000000000000000000000000000000000000000000000000000000000000000000000000000000000000000000000000000000000000000000000000000000000000000000000000000000000000000000000000000000000000000000000000000000000000000000000000000000000000000000) = Fin (9999999999999999860310597602564577717002641838126363875249660735883565852672743849064846414228960666786379280392654615393353172850252103336275952370615397010730691664689375178569039851073146339641623266071126720011020169553304018596457812688561947201171488461172921822139066929851282122002676667750021070848)"
proof -
  have r: "round_half_even (10000000000000000000000000000000000000000000000000000000000000000000000000000000000000000000000000000000000000000000000000000000000000000000000000000000000000000000000000000000000000000000000000000000000000000000000000000000000000000000000000000000000000000000000000000000000000000000000000000000000000000000 / pow2 (1019 - 52)) = 8016673440035891"
    by (rule round_half_even_eqI) (simp_all add: pow2_def)
  from fl_pos [where e = "1019" and x = "10000000000000000000000000000000000000000000000000000000000000000000000000000000000000000000000000000000000000000000000000000000000000000000000000000000000000000000000000000000000000000000000000000000000000000000000000000000000000000000000000000000000000000000000000000000000000000000000000000000000000000000", OF _ _ _ r refl] show ?thesis
    by (simp add: pow2_def)
qed

lemma fl_1e307_again: "fl (9999999999999999860310597602564577717002641838126363875249660735883565852672743849064846414228960666786379280392654615393353172850252103336275952370615397010730691664689375178569039851073146339641623266071126720011020169553304018596457812688561947201171488461172921822139066929851282122002676667750021070848) = Fin (9999999999999999860310597602564577717002641838126363875249660735883565852672743849064846414228960666786379280392654615393353172850252103336275952370615397010730691664689375178569039851073146339641623266071126720011020169553304018596457812688561947201171488461172921822139066929851282122002676667750021070848)"
proof -
  have r: "round_half_even (9999999999999999860310597602564577717002641838126363875249660735883565852672743849064846414228960666786379280392654615393353172850252103336275952370615397010730691664689375178569039851073146339641623266071126720011020169553304018596457812688561947201171488461172921822139066929851282122002676667750021070848 / pow2 (1019 - 52)) = 8016673440035891"
    by (rule round_half_even_eqI) (simp_all add: pow2_def)
  from fl_pos [where e = "1019" and x = "9999999999999999860310597602564577717002641838126363875249660735883565852672743849064846414228960666786379280392654615393353172850252103336275952370615397010730691664689375178569039851073146339641623266071126720011020169553304018596457812688561947201171488461172921822139066929851282122002676667750021070848", OF _ _ _ r refl] show ?thesis
    by (simp add: pow2_def)
qed

lemma fl_1e307_minus_1: "fl (9999999999999999860310597602564577717002641838126363875249660735883565852672743849064846414228960666786379280392654615393353172850252103336275952370615397010730691664689375178569039851073146339641623266071126720011020169553304018596457812688561947201171488461172921822139066929851282122002676667750021070847) = Fin (9999999999999999860310597602564577717002641838126363875249660735883565852672743849064846414228960666786379280392654615393353172850252103336275952370615397010730691664689375178569039851073146339641623266071126720011020169553304018596457812688561947201171488461172921822139066929851282122002676667750021070848)"
proof -
  have r: "round_half_even (9999999999999999860310597602564577717002641838126363875249660735883565852672743849064846414228960666786379280392654615393353172850252103336275952370615397010730691664689375178569039851073146339641623266071126720011020169553304018596457812688561947201171488461172921822139066929851282122002676667750021070847 / pow2 (1019 - 52)) = 8016673440035891"
    by (rule round_half_even_eqI) (simp_all add: pow2_def)
  from fl_pos [where e = "1019" and x = "9999999999999999860310597602564577717002641838126363875249660735883565852672743849064846414228960666786379280392654615393353172850252103336275952370615397010730691664689375178569039851073146339641623266071126720011020169553304018596457812688561947201171488461172921822139066929851282122002676667750021070847", OF _ _ _ r refl] show ?thesis
    by (simp add: pow2_def)
qed

lemma fl_1e307_times_100: "fl (999999999999999986031059760256457771700264183812636387524966073588356585267274384906484641422896066678637928039265461539335317285025210333627595237061539701073069166468937517856903985107314633964162326607112672001102016955330401859645781268856194720117148846117292182213906692985128212200267666775002107084800) = PosInf"
proof -
  have r: "round_half_even (999999999999999986031059760256457771700264183812636387524966073588356585267274384906484641422896066678637928039265461539335317285025210333627595237061539701073069166468937517856903985107314633964162326607112672001102016955330401859645781268856194720117148846117292182213906692985128212200267666775002107084800 / pow2 (1026 - 52)) = 6263026125028040"
    by (rule round_half_even_eqI) (simp_all add: pow2_def)
  from fl_pos [where e = "1026" and x = "999999999999999986031059760256457771700264183812636387524966073588356585267274384906484641422896066678637928039265461539335317285025210333627595237061539701073069166468937517856903985107314633964162326607112672001102016955330401859645781268856194720117148846117292182213906692985128212200267666775002107084800", OF _ _ _ r refl] show ?thesis
    by (simp add: pow2_def)
qed
section \<open>The name guard\<close>

lemma trim_empty_iff: "trim s = [] \<longleftrightarrow> list_all isWhiteSpace s"
proof
  assume e: "trim s = []"
  show "list_all isWhiteSpace s"
  proof (rule ccontr)
    assume "\<not> list_all isWhiteSpace s"
    then have ne: "dropWhile isWhiteSpace s \<noteq> []"
      by (simp add: list_all_iff)
    then have "\<not> isWhiteSpace (hd (dropWhile isWhiteSpace s))"
      by (rule hd_dropWhile)
    moreover have "hd (dropWhile isWhiteSpace s) \<in> set (rev (dropWhile isWhiteSpace s))"
      using ne by simp
    moreover from e have "\<forall>c\<in>set (rev (dropWhile isWhiteSpace s)). isWhiteSpace c"
      by (simp add: trim_def)
    ultimately show False by blast
  qed
next
  assume "list_all isWhiteSpace s"
  then have d: "dropWhile isWhiteSpace s = []"
    by (simp add: list_all_iff)
  show "trim s = []"
    unfolding trim_def d by simp
qed

lemmas eval_defs =
  str_def genId_def trim_def isWhiteSpace_def emptySnapshot_def parseNumber_def
  addAccount_def addCategory_def budgetCategory_def addTransaction_def

lemma run_scenario: "run parseNumber scenario emptySnapshot = afterScenario"
  by (simp add: scenario_def milk_def afterScenario_def eval_defs)

text \<open>
  C3. \<open>addAccount\<close> with a name that is empty or all whitespace returns the snapshot
  unchanged. With any other name it appends exactly one account, whose balance is the
  opening balance given (as \<open>parseFloat\<close> reads it), and leaves the categories and the
  transactions as they are.
\<close>

theorem addAccount_name_guard:
  "(list_all isWhiteSpace name \<longrightarrow> addAccount parseFloat rnd name bal d = d) \<and>
   (\<not> list_all isWhiteSpace name \<longrightarrow>
      accounts (addAccount parseFloat rnd name bal d) =
        accounts d @ [\<lparr>account_id = genId rnd, account_name = name, balance = parseFloat bal\<rparr>] \<and>
      categories (addAccount parseFloat rnd name bal d) = categories d \<and>
      transactions (addAccount parseFloat rnd name bal d) = transactions d)"
  by (simp add: addAccount_def trim_empty_iff)

theorem addAccount_name_guard_witness:
  "list_all isWhiteSpace (str ''   '') \<and> list_all isWhiteSpace (str []) \<and>
   addAccount parseNumber (str ''i'') (str ''   '') 100 afterScenario = afterScenario \<and>
   addAccount parseNumber (str ''i'') (str []) 100 afterScenario = afterScenario \<and>
   \<not> list_all isWhiteSpace (str ''Savings'') \<and>
   accounts (addAccount parseNumber (str ''i'') (str ''Savings'') 100 afterScenario) =
     accounts afterScenario @
       [\<lparr>account_id = str ''_i'', account_name = str ''Savings'', balance = 100\<rparr>] \<and>
   categories (addAccount parseNumber (str ''i'') (str ''Savings'') 100 afterScenario) =
     categories afterScenario \<and>
   transactions (addAccount parseNumber (str ''i'') (str ''Savings'') 100 afterScenario) =
     transactions afterScenario"
proof -
  have w: "list_all isWhiteSpace (str ''   '')" "list_all isWhiteSpace (str [])"
    and n: "\<not> list_all isWhiteSpace (str ''Savings'')"
    by (simp_all add: str_def isWhiteSpace_def)
  have g: "genId (str ''i'') = str ''_i''"
    by (simp add: genId_def str_def)
  show ?thesis
    using w n
      addAccount_name_guard [of "str ''   ''" parseNumber "str ''i''" 100 afterScenario]
      addAccount_name_guard [of "str []" parseNumber "str ''i''" 100 afterScenario]
      addAccount_name_guard [of "str ''Savings''" parseNumber "str ''i''" 100 afterScenario]
    by (simp add: g parseNumber_def)
qed

section \<open>Transactions and balances\<close>

text \<open>
  C2. When the \<open>accountId\<close> of the transaction matches no account of the snapshot,
  \<open>addTransaction\<close> still appends the transaction to the log, and the accounts, so every
  balance, are unchanged.
\<close>

theorem addTransaction_unknown_account:
  assumes "\<forall>a \<in> set (accounts d). account_id a \<noteq> accountId tx"
  shows "transactions (addTransaction rnd now tx d) =
           transactions d @
             [\<lparr>accountId = accountId tx, categoryId = categoryId tx, amount = amount tx,
               memo = memo tx, transaction_id = genId rnd, date = now\<rparr>] \<and>
         accounts (addTransaction rnd now tx d) = accounts d \<and>
         map balance (accounts (addTransaction rnd now tx d)) = map balance (accounts d) \<and>
         categories (addTransaction rnd now tx d) = categories d"
proof -
  have "map (\<lambda>a. if account_id a = accountId tx then a\<lparr>balance := balance a + amount tx\<rparr> else a)
          (accounts d) = accounts d"
    using assms by (intro map_idI) simp
  then show ?thesis
    by (simp add: addTransaction_def)
qed

theorem addTransaction_unknown_account_witness:
  "map account_id (accounts afterScenario) = [str ''_a''] \<and>
   accountId stray = str ''_zz'' \<and>
   transactions (addTransaction (str ''u'') (str ''2024-01-02'') stray afterScenario) =
     transactions afterScenario @
       [\<lparr>accountId = str ''_zz'', categoryId = str ''_g'', amount = -5, memo = str [],
         transaction_id = str ''_u'', date = str ''2024-01-02''\<rparr>] \<and>
   accounts (addTransaction (str ''u'') (str ''2024-01-02'') stray afterScenario) =
     accounts afterScenario \<and>
   map balance (accounts (addTransaction (str ''u'') (str ''2024-01-02'') stray afterScenario)) = [80]"
proof -
  have h: "\<forall>a \<in> set (accounts afterScenario). account_id a \<noteq> accountId stray"
    by (simp add: afterScenario_def stray_def str_def)
  have g: "genId (str ''u'') = str ''_u''"
    by (simp add: genId_def str_def)
  have b: "map balance (accounts afterScenario) = [80]"
    by (simp add: afterScenario_def)
  have i: "map account_id (accounts afterScenario) = [str ''_a'']"
    by (simp add: afterScenario_def)
  from addTransaction_unknown_account [OF h, of "str ''u''" "str ''2024-01-02''"] i g b
  show ?thesis
    by (simp add: stray_def)
qed

subsection \<open>Reconciliation\<close>

lemma recomputed_addTransaction:
  "recomputed (addTransaction rnd now tx d) ob i =
     (if accountId tx = i then recomputed d ob i + amount tx else recomputed d ob i)"
  by (simp add: recomputed_def addTransaction_def)

lemma recomputed_addAccount [simp]:
  "recomputed (addAccount parseFloat rnd name bal d) ob i = recomputed d ob i"
  by (simp add: recomputed_def addAccount_def)

lemma recomputed_addCategory [simp]:
  "recomputed (addCategory rnd name d) ob i = recomputed d ob i"
  by (simp add: recomputed_def addCategory_def)

lemma recomputed_budgetCategory [simp]:
  "recomputed (budgetCategory parseFloat c delta d) ob i = recomputed d ob i"
  by (simp add: recomputed_def budgetCategory_def)

lemma recomputed_fresh:
  assumes "i \<notin> set (map accountId (transactions d))"
  shows "recomputed d ob i = ob"
proof -
  from assms have "filter (\<lambda>t. accountId t = i) (transactions d) = []"
    by (auto simp: filter_empty_conv)
  then show ?thesis
    by (simp add: recomputed_def)
qed

lemma reconciled_addTransaction:
  assumes "reconciled d os"
  shows "reconciled (addTransaction rnd now tx d) os"
proof -
  let ?upd = "\<lambda>a. if account_id a = accountId tx then a\<lparr>balance := balance a + amount tx\<rparr> else a"
  have "accounts (addTransaction rnd now tx d) = map ?upd (accounts d)"
    by (simp add: addTransaction_def)
  moreover have "list_all2
      (\<lambda>a ob. balance (?upd a) =
         recomputed (addTransaction rnd now tx d) ob (account_id (?upd a)))
      (accounts d) os"
    using assms unfolding reconciled_def
    by (rule list_all2_mono) (auto simp: recomputed_addTransaction)
  ultimately show ?thesis
    by (simp add: reconciled_def list_all2_map1)
qed

lemma reconciled_addAccount:
  assumes "reconciled d os" and "fresh_account (AddAccount rnd name bal) d"
  shows "reconciled (addAccount parseFloat rnd name bal d)
           (if trim name = [] then os else os @ [parseFloat bal])"
proof (cases "trim name = []")
  case True
  with assms(1) show ?thesis by (simp add: addAccount_def)
next
  case False
  let ?d = "addAccount parseFloat rnd name bal d"
  let ?a = "\<lparr>account_id = genId rnd, account_name = name, balance = parseFloat bal\<rparr>"
  from False assms(2) have "recomputed d (parseFloat bal) (genId rnd) = parseFloat bal"
    by (simp add: recomputed_fresh)
  then have new: "list_all2 (\<lambda>a ob. balance a = recomputed ?d ob (account_id a))
      [?a] [parseFloat bal]"
    by simp
  have old: "list_all2 (\<lambda>a ob. balance a = recomputed ?d ob (account_id a)) (accounts d) os"
    using assms(1) by (simp add: reconciled_def)
  have "accounts ?d = accounts d @ [?a]"
    using False by (simp add: addAccount_def)
  with list_all2_appendI [OF old new] False show ?thesis
    by (simp add: reconciled_def)
qed

lemma reconciled_addCategory: "reconciled d os \<Longrightarrow> reconciled (addCategory rnd name d) os"
  by (simp add: reconciled_def) (simp add: addCategory_def)

lemma reconciled_budgetCategory:
  "reconciled d os \<Longrightarrow> reconciled (budgetCategory parseFloat c delta d) os"
  by (simp add: reconciled_def) (simp add: budgetCategory_def)

lemma reconciled_run:
  "reconciled d os \<Longrightarrow> valid_ops parseFloat xs d \<Longrightarrow>
   reconciled (run parseFloat xs d) (openings parseFloat xs os)"
proof (induction xs arbitrary: d os)
  case Nil
  then show ?case by simp
next
  case (Cons x xs)
  from Cons.prems have f: "fresh_account x d"
    and v: "valid_ops parseFloat xs (apply_op parseFloat x d)"
    by simp_all
  show ?case
  proof (cases x)
    case (AddAccount rnd name bal)
    with Cons.prems(1) f
    have "reconciled (apply_op parseFloat x d) (if trim name = [] then os else os @ [parseFloat bal])"
      by (simp add: reconciled_addAccount)
    from Cons.IH [OF this v] AddAccount show ?thesis by simp
  next
    case (AddCategory rnd name)
    with Cons.prems(1) have "reconciled (apply_op parseFloat x d) os"
      by (simp add: reconciled_addCategory)
    from Cons.IH [OF this v] AddCategory show ?thesis by simp
  next
    case (BudgetCategory c delta)
    with Cons.prems(1) have "reconciled (apply_op parseFloat x d) os"
      by (simp add: reconciled_budgetCategory)
    from Cons.IH [OF this v] BudgetCategory show ?thesis by simp
  next
    case (AddTransaction rnd now tx)
    with Cons.prems(1) have "reconciled (apply_op parseFloat x d) os"
      by (simp add: reconciled_addTransaction)
    from Cons.IH [OF this v] AddTransaction show ?thesis by simp
  qed
qed

text \<open>
  A snapshot with an empty log is reconciled with its balances as opening balances. In
  exact arithmetic the recomputed balance is the opening balance plus the sum of the
  amounts, and every snapshot is reconciled with the opening balances its log implies.
\<close>

lemma reconciled_empty_log: "transactions d = [] \<Longrightarrow> reconciled d (map balance (accounts d))"
  by (simp add: reconciled_def recomputed_def list_all2_map2 list_all2_same)

lemma foldl_add_from:
  "foldl (\<lambda>s t. s + f t) a xs = a + foldl (\<lambda>s t. s + f t) 0 xs" for a :: "'a::monoid_add"
proof (induction xs rule: rev_induct)
  case Nil
  show ?case by simp
next
  case (snoc x xs)
  then show ?case by (simp add: add.assoc)
qed

lemma recomputed_exact: "recomputed d ob i = ob + activity d i"
  for d :: "'n::monoid_add snapshot"
  unfolding recomputed_def activity_def by (rule foldl_add_from)

lemma reconciled_exact: "reconciled d os = opening_plus_sum d os"
  for d :: "'n::monoid_add snapshot"
  by (simp add: reconciled_def opening_plus_sum_def recomputed_exact)

lemma reconciled_impliedOpenings: "reconciled d (impliedOpenings d)"
  for d :: "'n::ab_group_add snapshot"
  by (simp add: reconciled_exact opening_plus_sum_def impliedOpenings_def list_all2_map2
      list_all2_same)

text \<open>
  Sequences in which every transaction is for an existing account and every new account
  gets an id no account has are valid, from a snapshot whose log references existing
  accounts only.
\<close>

lemma account_ids_addTransaction:
  "map account_id (accounts (addTransaction rnd now tx d)) = map account_id (accounts d)"
  by (simp add: addTransaction_def o_def if_distrib cong: if_cong)

lemma refs_exist_apply_op:
  assumes "refs_exist d" and "wellformed x d"
  shows "refs_exist (apply_op parseFloat x d)"
proof (cases x)
  case (AddAccount rnd name bal)
  with assms(1) show ?thesis
    by (auto simp: refs_exist_def addAccount_def)
next
  case (AddCategory rnd name)
  with assms(1) show ?thesis
    by (auto simp: refs_exist_def addCategory_def)
next
  case (BudgetCategory i delta)
  with assms(1) show ?thesis
    by (auto simp: refs_exist_def budgetCategory_def)
next
  case (AddTransaction rnd now tx)
  have "transactions (addTransaction rnd now tx d) =
        transactions d @
          [\<lparr>accountId = accountId tx, categoryId = categoryId tx, amount = amount tx,
            memo = memo tx, transaction_id = genId rnd, date = now\<rparr>]"
    by (simp add: addTransaction_def)
  with assms AddTransaction show ?thesis
    by (auto simp: refs_exist_def account_ids_addTransaction simp del: set_map)
qed

lemma fresh_account_wellformed:
  "refs_exist d \<Longrightarrow> wellformed x d \<Longrightarrow> fresh_account x d"
  by (cases x) (auto simp: refs_exist_def)

lemma valid_ops_wellformed:
  "refs_exist d \<Longrightarrow> wellformed_ops parseFloat xs d \<Longrightarrow> valid_ops parseFloat xs d"
  by (induction xs arbitrary: d) (simp_all add: fresh_account_wellformed refs_exist_apply_op)

lemmas double_values =
  d_0_1_def d_0_2_def d_0_3_def d_0_30000000000000004_def d_0_6000000000000001_def d_0_6_def

lemma literals: "fl (1 / 10) = d_0_1" "fl (1 / 5) = d_0_2" "fl (3 / 10) = d_0_3" "fl (3 / 5) = d_0_6"
  by (simp_all add: double_values fl_tenth fl_fifth fl_three_tenths fl_three_fifths)

lemmas fl_values =
  fl_tenth fl_fifth fl_three_tenths fl_three_fifths fl_sum_tenth_fifth
  fl_sum_then_three_tenths fl_sum_fifth_three_tenths fl_sum_tenth_half fl_fifth_again
  fl_20 fl_30 fl_50 fl_7 fl_half fl_7_100 fl_7_100_times_100 fl_uminus

lemma sums:
  "d_0_1 + d_0_2 = d_0_30000000000000004"
  "d_0_30000000000000004 + d_0_3 = d_0_6000000000000001"
  "d_0_2 + d_0_3 = Fin (1 / 2)"
  "d_0_1 + Fin (1 / 2) = d_0_6"
  "0 + d_0_2 = d_0_2"
  "Fin 50 + Fin (- 20) = Fin 30"
  "0 + Fin (- 20) = Fin (- 20)"
  by (simp_all add: double_values zero_double_def fl_values)

lemma run_drift: "run parseNumber drift emptySnapshot = afterDrift"
  by (simp add: drift_def afterDrift_def eval_defs double_values fl_values)

lemma accounts_afterDrift:
  "accounts afterDrift =
     [\<lparr>account_id = str ''_f'', account_name = str ''Float'', balance = d_0_6000000000000001\<rparr>,
      \<lparr>account_id = str ''_h'', account_name = str ''Giro'', balance = Fin 30\<rparr>]"
  by (simp add: afterDrift_def)

lemma run_growth: "run parseNumber growth ledger = afterGrowth"
  by (simp add: growth_def ledger_def afterGrowth_def groceries_def rent_def eval_defs)

lemma run_reuse:
  "run parseNumber reuse emptySnapshot =
     \<lparr>accounts = [\<lparr>account_id = str ''_i'', account_name = str ''Checking'', balance = 80\<rparr>,
                  \<lparr>account_id = str ''_i'', account_name = str ''Savings'', balance = 50\<rparr>],
      categories = [],
      transactions = [\<lparr>accountId = str ''_i'', categoryId = str ''_g'', amount = - 20,
         memo = str ''milk'', transaction_id = str ''_t'',
         date = str ''2024-01-01T00:00:00.000Z''\<rparr>]\<rparr>"
  by (simp add: reuse_def eval_defs)

text \<open>
  C1, as the claim states it, fails in two ways.

  The balance is not the opening balance plus the sum: \<open>addTransaction\<close> rounds at every
  step. After \<open>drift\<close>, where every id is new, the first account holds
  \<open>(0.1 + 0.2) + 0.3 = 0.6000000000000001\<close>, while its opening balance plus the sum of its
  amounts is \<open>0.1 + (0.2 + 0.3) = 0.6\<close>.

  And \<open>genId\<close> draws ids at random and nothing checks them, so a new account can receive an
  id that transactions in the log already reference. After \<open>reuse\<close> the second account has
  opening balance 50 and balance 50, while the transaction of -20 references its id.
\<close>

theorem reconciliation_fails:
  "valid_ops parseNumber drift emptySnapshot \<and>
   fresh_ids parseNumber drift emptySnapshot \<and>
   openings parseNumber drift [] = [d_0_1, Fin 50] \<and>
   map balance (accounts (run parseNumber drift emptySnapshot)) = [d_0_6000000000000001, Fin 30] \<and>
   d_0_1 + activity (run parseNumber drift emptySnapshot) (str ''_f'') = d_0_6 \<and>
   d_0_6000000000000001 \<noteq> d_0_6 \<and>
   \<not> opening_plus_sum (run parseNumber drift emptySnapshot) (openings parseNumber drift []) \<and>
   openings parseNumber reuse [] = [100, 50] \<and>
   map balance (accounts (run parseNumber reuse emptySnapshot)) = [80, 50] \<and>
   map account_id (accounts (run parseNumber reuse emptySnapshot)) = [str ''_i'', str ''_i''] \<and>
   activity (run parseNumber reuse emptySnapshot) (str ''_i'') = - 20 \<and>
   \<not> opening_plus_sum (run parseNumber reuse emptySnapshot) (openings parseNumber reuse []) \<and>
   \<not> reconciled (run parseNumber reuse emptySnapshot) (openings parseNumber reuse [])"
proof -
  have v: "valid_ops parseNumber drift emptySnapshot"
    and f: "fresh_ids parseNumber drift emptySnapshot"
    by (simp_all add: drift_def eval_defs)
  have o: "openings parseNumber drift [] = [d_0_1, Fin 50]"
    by (simp add: drift_def eval_defs literals)
  have b: "map balance (accounts afterDrift) = [d_0_6000000000000001, Fin 30]"
    by (simp add: afterDrift_def)
  have a: "activity afterDrift (str ''_f'') = Fin (1 / 2)"
    "activity afterDrift (str ''_h'') = Fin (- 20)"
    by (simp_all add: activity_def afterDrift_def str_def double_values zero_double_def
        fl_values)
  have n: "d_0_6000000000000001 \<noteq> d_0_6"
    by (simp add: double_values)
  have s: "\<not> opening_plus_sum afterDrift [d_0_1, Fin 50]"
    using n by (simp add: opening_plus_sum_def accounts_afterDrift a sums)
  have o': "openings parseNumber reuse [] = [100, 50]"
    by (simp add: reuse_def eval_defs)
  have r: "activity (run parseNumber reuse emptySnapshot) (str ''_i'') = - 20"
    "\<not> opening_plus_sum (run parseNumber reuse emptySnapshot) [100, 50]"
    "\<not> reconciled (run parseNumber reuse emptySnapshot) [100, 50]"
    by (simp_all add: run_reuse activity_def recomputed_def opening_plus_sum_def reconciled_def)
  from v f o b a n s o' r show ?thesis
    by (simp add: run_drift sums) (simp add: run_reuse)
qed

text \<open>
  C1, amended. Start from any snapshot that is reconciled with its opening balances, and
  run any sequence of operations in which the id drawn for each new account is not yet
  referenced by a transaction in the log. Then every account's balance is the result of
  adding to its opening balance, in the order of the log, the amounts of all transactions
  whose \<open>accountId\<close> is its id.
\<close>

theorem balance_reconciliation:
  assumes "reconciled d os" and "valid_ops parseFloat xs d"
  shows "reconciled (run parseFloat xs d) (openings parseFloat xs os)"
  using assms by (rule reconciled_run)

text \<open>
  In \<open>drift\<close> the second account is added when the log is not empty, and the balance the
  theorem gives for the first is the double the program stores, 0.6000000000000001. From
  \<open>ledger\<close>, whose log has two transactions and which is reconciled with opening balances
  100 and 500, \<open>growth\<close> adds two accounts, with opening balances 5 and 0.
\<close>

theorem balance_reconciliation_witness:
  "reconciled emptySnapshot ([] :: double list) \<and>
   valid_ops parseNumber drift emptySnapshot \<and>
   openings parseNumber drift [] = [d_0_1, Fin 50] \<and>
   reconciled (run parseNumber drift emptySnapshot) [d_0_1, Fin 50] \<and>
   map balance (accounts (run parseNumber drift emptySnapshot)) = [d_0_6000000000000001, Fin 30] \<and>
   d_0_1 + d_0_2 + d_0_3 = d_0_6000000000000001 \<and>
   reconciled ledger [100, 500] \<and>
   valid_ops parseNumber growth ledger \<and>
   openings parseNumber growth [100, 500] = [100, 500, 5, 0] \<and>
   reconciled (run parseNumber growth ledger) [100, 500, 5, 0] \<and>
   map balance (accounts (run parseNumber growth ledger)) = [70, 475, 105, 0]"
proof -
  have r: "reconciled emptySnapshot ([] :: double list)"
    by (simp add: reconciled_def emptySnapshot_def)
  have v: "valid_ops parseNumber drift emptySnapshot"
    by (simp add: drift_def eval_defs)
  have o: "openings parseNumber drift [] = [d_0_1, Fin 50]"
    by (simp add: drift_def eval_defs literals)
  have b: "map balance (accounts afterDrift) = [d_0_6000000000000001, Fin 30]"
    by (simp add: afterDrift_def)
  have r': "reconciled ledger [100, 500]"
    by (simp add: reconciled_def recomputed_def ledger_def) (simp add: str_def)
  have v': "valid_ops parseNumber growth ledger"
    by (simp add: growth_def ledger_def groceries_def rent_def eval_defs)
  have o': "openings parseNumber growth [100, 500] = [100, 500, 5, 0]"
    by (simp add: growth_def eval_defs)
  have b': "map balance (accounts afterGrowth) = [70, 475, 105, 0]"
    by (simp add: afterGrowth_def)
  from balance_reconciliation [OF r v] balance_reconciliation [OF r' v'] r v o b r' v' o' b'
  show ?thesis
    by (simp add: run_drift run_growth sums)
qed

section \<open>Identifiers\<close>

lemma account_ids_apply_op:
  "\<exists>new. map account_id (accounts (apply_op parseFloat x d)) = map account_id (accounts d) @ new"
  by (cases x) (auto simp: addAccount_def addCategory_def budgetCategory_def addTransaction_def
      o_def if_distrib cong: if_cong)

lemma category_ids_apply_op:
  "\<exists>new. map category_id (categories (apply_op parseFloat x d)) =
     map category_id (categories d) @ new"
  by (cases x) (auto simp: addAccount_def addCategory_def budgetCategory_def addTransaction_def
      o_def if_distrib cong: if_cong)

lemma transactions_apply_op:
  "\<exists>new. transactions (apply_op parseFloat x d) = transactions d @ new"
  by (cases x) (auto simp: addAccount_def addCategory_def budgetCategory_def addTransaction_def)

lemma account_ids_run:
  "prefix (map account_id (accounts d)) (map account_id (accounts (run parseFloat xs d)))"
proof (induction xs arbitrary: d)
  case Nil
  then show ?case by simp
next
  case (Cons x xs)
  have "prefix (map account_id (accounts d)) (map account_id (accounts (apply_op parseFloat x d)))"
    using account_ids_apply_op [of parseFloat x d] by (auto simp: prefix_def)
  also have "prefix \<dots> (map account_id (accounts (run parseFloat (x # xs) d)))"
    using Cons.IH by simp
  finally show ?case .
qed

lemma category_ids_run:
  "prefix (map category_id (categories d)) (map category_id (categories (run parseFloat xs d)))"
proof (induction xs arbitrary: d)
  case Nil
  then show ?case by simp
next
  case (Cons x xs)
  have "prefix (map category_id (categories d))
          (map category_id (categories (apply_op parseFloat x d)))"
    using category_ids_apply_op [of parseFloat x d] by (auto simp: prefix_def)
  also have "prefix \<dots> (map category_id (categories (run parseFloat (x # xs) d)))"
    using Cons.IH by simp
  finally show ?case .
qed

text \<open>Not only the id: a recorded transaction is never changed.\<close>

lemma transactions_run: "prefix (transactions d) (transactions (run parseFloat xs d))"
proof (induction xs arbitrary: d)
  case Nil
  then show ?case by simp
next
  case (Cons x xs)
  have "prefix (transactions d) (transactions (apply_op parseFloat x d))"
    using transactions_apply_op [of parseFloat x d] by (auto simp: prefix_def)
  also have "prefix \<dots> (transactions (run parseFloat (x # xs) d))"
    using Cons.IH by simp
  finally show ?case .
qed

lemma ids_distinct_apply_op:
  assumes "ids_distinct d" and "fresh_id x d"
  shows "ids_distinct (apply_op parseFloat x d)"
proof (cases x)
  case (AddAccount rnd name bal)
  with assms show ?thesis
    by (auto simp: ids_distinct_def addAccount_def)
next
  case (AddCategory rnd name)
  with assms show ?thesis
    by (auto simp: ids_distinct_def addCategory_def)
next
  case (BudgetCategory i delta)
  have "map category_id (categories (budgetCategory parseFloat i delta d)) =
        map category_id (categories d)"
    by (simp add: budgetCategory_def o_def if_distrib cong: if_cong)
  with assms BudgetCategory show ?thesis
    by (simp add: ids_distinct_def) (simp add: budgetCategory_def)
next
  case (AddTransaction rnd now tx)
  have "map account_id (accounts (addTransaction rnd now tx d)) = map account_id (accounts d)"
    by (simp add: addTransaction_def o_def if_distrib cong: if_cong)
  with assms AddTransaction show ?thesis
    by (simp add: ids_distinct_def) (simp add: addTransaction_def)
qed

lemma ids_distinct_run:
  "ids_distinct d \<Longrightarrow> fresh_ids parseFloat xs d \<Longrightarrow> ids_distinct (run parseFloat xs d)"
  by (induction xs arbitrary: d) (simp_all add: ids_distinct_apply_op)

text \<open>
  C9, as the claim states it, fails: an id is \<open>'_'\<close> followed by digits of \<open>Math.random()\<close>,
  and no mutator compares it with the ids in use. When the draw repeats, two accounts of
  the snapshot have the same id.
\<close>

theorem repeated_draw_repeats_id:
  "ids_distinct emptySnapshot \<and>
   map account_id (accounts (run parseNumber collision emptySnapshot)) = [str ''_i'', str ''_i''] \<and>
   \<not> ids_distinct (run parseNumber collision emptySnapshot)"
  by (simp add: ids_distinct_def collision_def eval_defs)

text \<open>
  C9, amended. Along any sequence of operations the ids already in the snapshot stay where
  they are, in each of the three collections: ids are stable. They are pairwise distinct in
  the snapshot reached provided they were so at the start and every id drawn on the way
  differs from the ids then present in its collection.
\<close>

theorem ids_stable_and_distinct_if_fresh:
  "prefix (map account_id (accounts d)) (map account_id (accounts (run parseFloat xs d))) \<and>
   prefix (map category_id (categories d)) (map category_id (categories (run parseFloat xs d))) \<and>
   prefix (map transaction_id (transactions d))
     (map transaction_id (transactions (run parseFloat xs d))) \<and>
   (ids_distinct d \<and> fresh_ids parseFloat xs d \<longrightarrow> ids_distinct (run parseFloat xs d))"
  using account_ids_run [of d parseFloat xs] category_ids_run [of d parseFloat xs]
    transactions_run [of d parseFloat xs] ids_distinct_run [of d parseFloat xs]
  by (auto simp: map_mono_prefix)

text \<open>
  From \<open>ledger\<close>, which has two ids in each collection, \<open>growth\<close> draws five ids, each
  checked against the ids then present. The ids of \<open>ledger\<close> stay in front, and the four
  account ids, three category ids and four transaction ids reached are distinct.
\<close>

theorem ids_stable_and_distinct_if_fresh_witness:
  "ids_distinct ledger \<and> fresh_ids parseNumber growth ledger \<and>
   ids_distinct (run parseNumber growth ledger) \<and>
   map account_id (accounts ledger) = [str ''_a'', str ''_b''] \<and>
   map account_id (accounts (run parseNumber growth ledger)) =
     [str ''_a'', str ''_b'', str ''_c'', str ''_d''] \<and>
   prefix (map account_id (accounts ledger))
     (map account_id (accounts (run parseNumber growth ledger))) \<and>
   map category_id (categories ledger) = [str ''_g'', str ''_r''] \<and>
   map category_id (categories (run parseNumber growth ledger)) =
     [str ''_g'', str ''_r'', str ''_s''] \<and>
   prefix (map category_id (categories ledger))
     (map category_id (categories (run parseNumber growth ledger))) \<and>
   map transaction_id (transactions ledger) = [str ''_t'', str ''_u''] \<and>
   map transaction_id (transactions (run parseNumber growth ledger)) =
     [str ''_t'', str ''_u'', str ''_v'', str ''_w''] \<and>
   prefix (map transaction_id (transactions ledger))
     (map transaction_id (transactions (run parseNumber growth ledger)))"
proof -
  have d: "ids_distinct ledger"
    by (simp add: ids_distinct_def ledger_def groceries_def rent_def str_def)
  have f: "fresh_ids parseNumber growth ledger"
    by (simp add: growth_def ledger_def groceries_def rent_def eval_defs)
  have a: "map account_id (accounts ledger) = [str ''_a'', str ''_b'']"
    and c: "map category_id (categories ledger) = [str ''_g'', str ''_r'']"
    and t: "map transaction_id (transactions ledger) = [str ''_t'', str ''_u'']"
    by (simp_all add: ledger_def groceries_def rent_def)
  have a': "map account_id (accounts afterGrowth) = [str ''_a'', str ''_b'', str ''_c'', str ''_d'']"
    and c': "map category_id (categories afterGrowth) = [str ''_g'', str ''_r'', str ''_s'']"
    and t': "map transaction_id (transactions afterGrowth) =
      [str ''_t'', str ''_u'', str ''_v'', str ''_w'']"
    by (simp_all add: afterGrowth_def rent_def)
  from ids_stable_and_distinct_if_fresh [of ledger parseNumber growth] d f a c t a' c' t'
  show ?thesis by (simp add: run_growth)
qed

section \<open>Aggregation\<close>







subsection \<open>Spending by category\<close>










subsection \<open>Budget status\<close>




subsection \<open>Change of spending\<close>

lemma plus_not_NaN: "is_finite x \<Longrightarrow> is_finite y \<Longrightarrow> x + y \<noteq> NaN" for x y :: double
  by (cases x; cases y) (simp_all add: is_finite_def)

lemma spendingChange_not_NaN:
  assumes "is_finite current" and "is_finite previous"
  shows "spendingChange current previous \<noteq> NaN"
proof -
  from assms obtain a b where c: "current = Fin a" and p: "previous = Fin b"
    by (cases current; cases previous) (simp_all add: is_finite_def)
  show ?thesis
  proof (cases "0 < b")
    case False
    then show ?thesis by (simp add: spendingChange_def c p zero_double_def)
  next
    case True
    have "Fin a - Fin b \<noteq> NaN" by (simp add: minus_double_def)
    then have "(Fin a - Fin b) / Fin b \<noteq> NaN"
      using True by (cases "Fin a - Fin b") simp_all
    then have "(Fin a - Fin b) / Fin b * Fin 100 \<noteq> NaN"
      by (cases "(Fin a - Fin b) / Fin b") simp_all
    with True show ?thesis by (simp add: spendingChange_def c p zero_double_def)
  qed
qed

text \<open>
  C6, as the claim states it, fails: the guard keeps the divisor from being zero, but the
  result is still not always a finite number. With last month's total 1 and this month's
  \<open>1e307\<close> the product with 100 overflows to \<open>Infinity\<close>, and with last month's total
  \<open>Infinity\<close> the result is \<open>NaN\<close>; the divisor is not zero in either case.
\<close>

theorem spendingChange_not_finite:
  "is_finite (fl (10 ^ 307)) \<and> 0 < Fin 1 \<and>
   spendingChange (fl (10 ^ 307)) (Fin 1) = PosInf \<and>
   0 < PosInf \<and>
   spendingChange (Fin 10) PosInf = NaN"
  by (simp add: spendingChange_def minus_double_def zero_double_def is_finite_def fl_1e307
      fl_1e307_again fl_1e307_minus_1 fl_1e307_times_100)

text \<open>
  C6, amended. \<open>spendingChange\<close> is \<open>(current - previous) / previous * 100\<close>, in the
  arithmetic of doubles, when \<open>previous\<close> is positive, and 0 otherwise; for 0 and 0 it is 0.
  The division is evaluated only with a positive divisor, which is neither zero nor
  \<open>NaN\<close>, and for finite \<open>current\<close> and \<open>previous\<close> the result is never \<open>NaN\<close>. It can be an
  infinity, by overflow.
\<close>

theorem spendingChange_guarded:
  "spendingChange current previous =
     (if previous > 0 then (current - previous) / previous * Fin 100 else 0) \<and>
   spendingChange 0 0 = 0 \<and>
   (previous > 0 \<longrightarrow> previous \<noteq> 0 \<and> previous \<noteq> NaN) \<and>
   (is_finite current \<and> is_finite previous \<longrightarrow> spendingChange current previous \<noteq> NaN)"
proof -
  have "previous \<noteq> 0 \<and> previous \<noteq> NaN" if "previous > 0"
    using that by (cases previous) (simp_all add: zero_double_def)
  then show ?thesis
    by (simp add: spendingChange_not_NaN) (simp add: spendingChange_def zero_double_def)
qed

text \<open>
  From 100 to 150 the change is 50; from 100 to 107 it is the double the program shows,
  7.000000000000001; without spending last month it is 0.
\<close>

theorem spendingChange_guarded_witness:
  "spendingChange (Fin 150) (Fin 100) = Fin 50 \<and>
   spendingChange (Fin 107) (Fin 100) = Fin (7881299347898369 / 1125899906842624) \<and>
   spendingChange (Fin 40) 0 = 0 \<and>
   spendingChange 0 0 = 0 \<and>
   is_finite (Fin 107) \<and> is_finite (Fin 100) \<and> Fin 100 > 0 \<and> Fin 100 \<noteq> 0 \<and>
   spendingChange (Fin 107) (Fin 100) \<noteq> NaN"
  using spendingChange_guarded [of "Fin 150" "Fin 100"] spendingChange_guarded [of "Fin 107" "Fin 100"]
    spendingChange_guarded [of "Fin 40" 0]
  by (simp add: minus_double_def zero_double_def is_finite_def fl_50 fl_half fl_7 fl_7_100
      fl_7_100_times_100)

section \<open>Import and persistence\<close>

text \<open>
  C8. When \<open>JSON.parse\<close> throws on the text of the file, the promise is rejected with the
  error \<open>Invalid JSON file\<close>, the handler shows it and leaves \<open>data\<close> as it was. When the
  text parses, \<open>data\<close> becomes the parsed value, whatever it was before, and nothing is
  shown.
\<close>

theorem import_replaces_or_keeps:
  "(JSON_parse blob = None \<longrightarrow>
      loadDataFromFile JSON_parse (Readable blob) = Inl (Error (str ''Invalid JSON file'')) \<and>
      data (handleFileUpload JSON_parse [Readable blob] st) = data st \<and>
      alerts (handleFileUpload JSON_parse [Readable blob] st) =
        alerts st @ [str ''Error loading file: Invalid JSON file'']) \<and>
   (\<forall>v. JSON_parse blob = Some v \<longrightarrow>
      loadDataFromFile JSON_parse (Readable blob) = Inr v \<and>
      data (handleFileUpload JSON_parse [Readable blob] st) = v \<and>
      alerts (handleFileUpload JSON_parse [Readable blob] st) = alerts st)"
  by (simp add: handleFileUpload_def loadDataFromFile_def str_def)

theorem import_replaces_or_keeps_witness:
  "parseEmpty (str ''budget'') = None \<and>
   data (handleFileUpload parseEmpty [Readable (str ''budget'')]
     \<lparr>data = afterScenario, isLoading = False, alerts = []\<rparr>) = afterScenario \<and>
   alerts (handleFileUpload parseEmpty [Readable (str ''budget'')]
     \<lparr>data = afterScenario, isLoading = False, alerts = []\<rparr>) =
     [str ''Error loading file: Invalid JSON file''] \<and>
   parseEmpty emptyText = Some emptySnapshot \<and>
   data (handleFileUpload parseEmpty [Readable emptyText]
     \<lparr>data = afterScenario, isLoading = False, alerts = []\<rparr>) = emptySnapshot"
proof -
  have n: "parseEmpty (str ''budget'') = None"
    by (simp add: parseEmpty_def emptyText_def str_def)
  have s: "parseEmpty emptyText = Some emptySnapshot"
    by (simp add: parseEmpty_def)
  from n s
    import_replaces_or_keeps [of parseEmpty "str ''budget''"
      "\<lparr>data = afterScenario, isLoading = False, alerts = []\<rparr>"]
    import_replaces_or_keeps [of parseEmpty emptyText
      "\<lparr>data = afterScenario, isLoading = False, alerts = []\<rparr>"]
  show ?thesis by simp
qed

end
